theory Spec2Isabelle
  imports Main "HOL-Library.Word"
begin

section \<open>Machine types\<close>

text \<open>
  The fixed-width integers of \<^verbatim>\<open><cstdint>\<close> are words. \<^verbatim>\<open>size_t\<close> and
  every object or function pointer are taken at 64 bits; a pointer is an address and
  \<^verbatim>\<open>nullptr\<close> is the address 0, so that \<^verbatim>\<open>if (p)\<close> reads \<open>p \<noteq> nullptr\<close>.
  A \<^verbatim>\<open>const char*\<close> that refers to a string is \<open>Some\<close> of its characters and the
  null \<^verbatim>\<open>const char*\<close> is \<open>None\<close>.
\<close>

type_synonym uint8_t = "8 word"
type_synonym uint32_t = "32 word"
type_synonym uint64_t = "64 word"
type_synonym size_t = "64 word"
type_synonym pointer = "64 word"
type_synonym c_str = "string option"

definition nullptr :: pointer where
  "nullptr = 0"

section \<open>provider\_contract\_datatypes.h\<close>

subsection \<open>StreamIntent\<close>

text \<open>\<^verbatim>\<open>enum class StreamIntent : uint8_t { PREVIEW = 0, VIEWFINDER = 1 }\<close>\<close>

type_synonym StreamIntent = uint8_t

definition PREVIEW :: StreamIntent where
  "PREVIEW = 0"

definition VIEWFINDER :: StreamIntent where
  "VIEWFINDER = 1"

subsection \<open>ProviderError\<close>

text \<open>
  \<^verbatim>\<open>enum class ProviderError : uint32_t\<close>: a scoped enumeration with a fixed underlying
  type. Its values are all the values of \<^verbatim>\<open>uint32_t\<close>; nine of them have an
  enumerator. \<^verbatim>\<open>OK\<close> is declared \<^verbatim>\<open>= 0\<close> and each further enumerator, having no
  initialiser, is its predecessor plus one.
\<close>

type_synonym ProviderError = uint32_t

definition OK :: ProviderError where
  "OK = 0"

definition ERR_NOT_SUPPORTED :: ProviderError where
  "ERR_NOT_SUPPORTED = OK + 1"

definition ERR_INVALID_ARGUMENT :: ProviderError where
  "ERR_INVALID_ARGUMENT = ERR_NOT_SUPPORTED + 1"

definition ERR_BUSY :: ProviderError where
  "ERR_BUSY = ERR_INVALID_ARGUMENT + 1"

definition ERR_BAD_STATE :: ProviderError where
  "ERR_BAD_STATE = ERR_BUSY + 1"

definition ERR_PLATFORM_CONSTRAINT :: ProviderError where
  "ERR_PLATFORM_CONSTRAINT = ERR_BAD_STATE + 1"

definition ERR_TRANSIENT_FAILURE :: ProviderError where
  "ERR_TRANSIENT_FAILURE = ERR_PLATFORM_CONSTRAINT + 1"

definition ERR_PROVIDER_FAILED :: ProviderError where
  "ERR_PROVIDER_FAILED = ERR_TRANSIENT_FAILURE + 1"

definition ERR_SHUTTING_DOWN :: ProviderError where
  "ERR_SHUTTING_DOWN = ERR_PROVIDER_FAILED + 1"

text \<open>The enumerator list of the declaration, in source order: identifier and value.\<close>

definition ProviderError_enumerators :: "(string \<times> ProviderError) list" where
  "ProviderError_enumerators =
    [(''OK'', OK),
     (''ERR_NOT_SUPPORTED'', ERR_NOT_SUPPORTED),
     (''ERR_INVALID_ARGUMENT'', ERR_INVALID_ARGUMENT),
     (''ERR_BUSY'', ERR_BUSY),
     (''ERR_BAD_STATE'', ERR_BAD_STATE),
     (''ERR_PLATFORM_CONSTRAINT'', ERR_PLATFORM_CONSTRAINT),
     (''ERR_TRANSIENT_FAILURE'', ERR_TRANSIENT_FAILURE),
     (''ERR_PROVIDER_FAILED'', ERR_PROVIDER_FAILED),
     (''ERR_SHUTTING_DOWN'', ERR_SHUTTING_DOWN)]"

text \<open>The values that have an enumerator.\<close>

definition named_codes :: "ProviderError set" where
  "named_codes = snd ` set ProviderError_enumerators"

subsection \<open>ProviderResult\<close>

text \<open>
  \<^verbatim>\<open>struct ProviderResult { ProviderError code = ProviderError::OK; ... }\<close> with the
  member \<^verbatim>\<open>ok()\<close> and the static factories \<^verbatim>\<open>success()\<close> and \<^verbatim>\<open>failure(c)\<close>.
\<close>

record ProviderResult =
  code :: ProviderError

definition ok :: "ProviderResult \<Rightarrow> bool" where
  "ok r = (code r = OK)"

definition success :: ProviderResult where
  "success = \<lparr>code = OK\<rparr>"

definition failure :: "ProviderError \<Rightarrow> ProviderResult" where
  "failure c = \<lparr>code = c\<rparr>"

subsection \<open>CameraEndpoint\<close>

record CameraEndpoint =
  hardware_id :: string
  name :: string

subsection \<open>StreamRequest, CaptureRequest, SpecPatchView\<close>

record StreamRequest =
  stream_id :: uint64_t
  device_instance_id :: uint64_t
  intent :: StreamIntent
  width :: uint32_t
  height :: uint32_t
  format_fourcc :: uint32_t
  target_fps_min :: uint32_t
  target_fps_max :: uint32_t
  profile_version :: uint64_t

record CaptureRequest =
  capture_id :: uint64_t
  device_instance_id :: uint64_t
  rig_id :: uint64_t
  width :: uint32_t
  height :: uint32_t
  format_fourcc :: uint32_t
  profile_version :: uint64_t

record SpecPatchView =
  data :: pointer
  size_bytes :: size_t

subsection \<open>Native object reporting\<close>

record NativeObjectCreateInfo =
  native_id :: uint64_t
  type_tag :: uint32_t
  root_id :: uint64_t
  owner_rig_id :: uint64_t
  owner_device_instance_id :: uint64_t
  owner_stream_id :: uint64_t
  created_ns :: uint64_t
  bytes_allocated :: uint64_t
  buffers_in_use :: uint32_t

record NativeObjectDestroyInfo =
  native_id :: uint64_t
  destroyed_ns :: uint64_t

subsection \<open>FrameView\<close>

text \<open>
  The member \<^verbatim>\<open>release\<close> is a function pointer of type
  \<^verbatim>\<open>void (*)(void* user, const FrameView* frame)\<close>; \<^verbatim>\<open>data\<close> and
  \<^verbatim>\<open>release_user\<close> are object pointers.
\<close>

record FrameView =
  device_instance_id :: uint64_t
  stream_id :: uint64_t
  capture_id :: uint64_t
  width :: uint32_t
  height :: uint32_t
  format_fourcc :: uint32_t
  timestamp_ns :: uint64_t
  data :: pointer
  size_bytes :: size_t
  stride_bytes :: uint32_t
  release :: pointer
  release_user :: pointer

text \<open>The value a default-constructed \<^verbatim>\<open>FrameView\<close> has: its default member initialisers.\<close>

definition FrameView_default :: FrameView where
  "FrameView_default =
    \<lparr>device_instance_id = 0, stream_id = 0, capture_id = 0,
     width = 0, height = 0, format_fourcc = 0,
     timestamp_ns = 0,
     data = nullptr, size_bytes = 0,
     stride_bytes = 0,
     release = nullptr, release_user = nullptr\<rparr>"

section \<open>provider\_error\_string.cpp\<close>

text \<open>
  \<^verbatim>\<open>to_string\<close> is a \<^verbatim>\<open>switch\<close> over the nine enumerators with a \<^verbatim>\<open>default\<close>
  label; every branch returns a string literal.
\<close>

definition to_string :: "ProviderError \<Rightarrow> c_str" where
  "to_string error =
    (if error = OK then Some ''OK''
     else if error = ERR_NOT_SUPPORTED then Some ''ERR_NOT_SUPPORTED''
     else if error = ERR_INVALID_ARGUMENT then Some ''ERR_INVALID_ARGUMENT''
     else if error = ERR_BUSY then Some ''ERR_BUSY''
     else if error = ERR_BAD_STATE then Some ''ERR_BAD_STATE''
     else if error = ERR_PLATFORM_CONSTRAINT then Some ''ERR_PLATFORM_CONSTRAINT''
     else if error = ERR_TRANSIENT_FAILURE then Some ''ERR_TRANSIENT_FAILURE''
     else if error = ERR_PROVIDER_FAILED then Some ''ERR_PROVIDER_FAILED''
     else if error = ERR_SHUTTING_DOWN then Some ''ERR_SHUTTING_DOWN''
     else Some ''UNKNOWN_PROVIDER_ERROR'')"

section \<open>FrameView::release\_now\<close>

text \<open>
  \<^verbatim>\<open>release_now\<close> reads two members of the object \<^verbatim>\<open>this\<close> points to and may call
  through the function pointer \<^verbatim>\<open>release\<close>. The state it runs in is explicit: the
  \<^verbatim>\<open>FrameView\<close> objects by address, the rest of the program's state, and the log of
  the calls made through a function pointer, oldest first.
\<close>

datatype indirect_call = Call (callee: pointer) (arg_user: pointer) (arg_frame: pointer)

record 'w machine =
  frames :: "pointer \<rightharpoonup> FrameView"
  world :: 'w
  invoked :: "indirect_call list"

text \<open>
  What calling the function at an address does, given the two arguments of a
  \<^verbatim>\<open>ReleaseFn\<close>: the state after the call, or \<open>None\<close> where the call does not
  return. The function is the provider's and nothing about it is fixed here: it may
  write any part of the state, the \<^verbatim>\<open>FrameView\<close> objects included (\<^verbatim>\<open>user\<close> is a
  pointer to non-const), it may make calls of its own, \<^verbatim>\<open>release_now\<close> among them,
  and it may fail to return.
\<close>

type_synonym 'w ReleaseFn = "pointer \<Rightarrow> pointer \<Rightarrow> pointer \<Rightarrow> 'w machine \<Rightarrow> 'w machine option"

text \<open>
  \<^verbatim>\<open>void release_now() const { if (release) { release(release_user, this); } }\<close>
  The call is entered in the log and the state handed to the called function; what
  that function returns the state as is what \<^verbatim>\<open>release_now\<close> returns it as. The
  result is \<open>None\<close> where the called function does not return, and where \<^verbatim>\<open>this\<close>
  points to no \<^verbatim>\<open>FrameView\<close>: the C++ is undefined there.
\<close>

definition release_now :: "'w ReleaseFn \<Rightarrow> pointer \<Rightarrow> 'w machine \<Rightarrow> 'w machine option" where
  "release_now fns this m =
    (case frames m this of
       None \<Rightarrow> None
     | Some fv \<Rightarrow>
         if release fv \<noteq> nullptr
         then fns (release fv) (release_user fv) this
                (m\<lparr>invoked := invoked m @ [Call (release fv) (release_user fv) this]\<rparr>)
         else Some m)"

subsection \<open>Release functions, for concrete instances\<close>

text \<open>
  A release function that counts its calls in the rest of the state and touches
  nothing else.
\<close>

definition counting_release :: "nat ReleaseFn" where
  "counting_release f user frame m = Some (m\<lparr>world := Suc (world m)\<rparr>)"

text \<open>
  A release function whose \<^verbatim>\<open>user\<close> argument points to a \<^verbatim>\<open>FrameView\<close>: it counts
  its calls and, through \<^verbatim>\<open>user\<close>, sets that object's \<^verbatim>\<open>release\<close> to null.
\<close>

definition clearing_release :: "nat ReleaseFn" where
  "clearing_release f user frame m =
    (case frames m user of
       None \<Rightarrow> None
     | Some fv \<Rightarrow>
         Some (m\<lparr>frames := (frames m)(user \<mapsto> fv\<lparr>release := nullptr\<rparr>),
                 world := Suc (world m)\<rparr>))"

section \<open>icamera\_provider.h\<close>

subsection \<open>IProviderCallbacks\<close>





subsection \<open>ICameraProvider\<close>

text \<open>
  The provider interface is a class of pure virtual methods. An implementation is a
  table of methods over its own state \<open>'p\<close>: a method takes its arguments and the state
  and gives what it returns and the state after. \<^verbatim>\<open>provider_name\<close> is \<^verbatim>\<open>const\<close> and
  returns a \<^verbatim>\<open>const char*\<close>. \<^verbatim>\<open>initialize\<close> takes a pointer to the sink.
  \<^verbatim>\<open>enumerate_endpoints\<close> takes the caller's vector by reference, so it also gives the
  vector after the call.
\<close>

record 'p ICameraProvider =
  provider_name :: "'p \<Rightarrow> c_str"
  initialize :: "pointer \<Rightarrow> 'p \<Rightarrow> ProviderResult \<times> 'p"
  enumerate_endpoints :: "CameraEndpoint list \<Rightarrow> 'p \<Rightarrow> ProviderResult \<times> CameraEndpoint list \<times> 'p"
  open_device :: "string \<Rightarrow> uint64_t \<Rightarrow> uint64_t \<Rightarrow> 'p \<Rightarrow> ProviderResult \<times> 'p"
  close_device :: "uint64_t \<Rightarrow> 'p \<Rightarrow> ProviderResult \<times> 'p"
  create_stream :: "StreamRequest \<Rightarrow> 'p \<Rightarrow> ProviderResult \<times> 'p"
  destroy_stream :: "uint64_t \<Rightarrow> 'p \<Rightarrow> ProviderResult \<times> 'p"
  start_stream :: "uint64_t \<Rightarrow> 'p \<Rightarrow> ProviderResult \<times> 'p"
  stop_stream :: "uint64_t \<Rightarrow> 'p \<Rightarrow> ProviderResult \<times> 'p"
  trigger_capture :: "CaptureRequest \<Rightarrow> 'p \<Rightarrow> ProviderResult \<times> 'p"
  abort_capture :: "uint64_t \<Rightarrow> 'p \<Rightarrow> ProviderResult \<times> 'p"
  apply_camera_spec_patch :: "string \<Rightarrow> uint64_t \<Rightarrow> SpecPatchView \<Rightarrow> 'p \<Rightarrow> ProviderResult \<times> 'p"
  apply_imaging_spec_patch :: "uint64_t \<Rightarrow> SpecPatchView \<Rightarrow> 'p \<Rightarrow> ProviderResult \<times> 'p"
  shutdown :: "'p \<Rightarrow> ProviderResult \<times> 'p"



text \<open>What a call returns: a value of the method's declared return type.\<close>

datatype returned_value =
    is_c_str: Ret_c_str c_str
  | is_ProviderResult: Ret_ProviderResult ProviderResult


subsection \<open>An implementation of the interface, for concrete instances\<close>

text \<open>
  A provider without state: it is called \<open>fixed\<close>, every method with a
  \<^verbatim>\<open>ProviderResult\<close> returns the same result \<open>r\<close>, and enumeration stores the
  endpoints \<open>eps\<close> in the caller's vector.
\<close>

definition fixed_provider :: "ProviderResult \<Rightarrow> CameraEndpoint list \<Rightarrow> unit ICameraProvider" where
  "fixed_provider r eps =
    \<lparr>provider_name = (\<lambda>s. Some ''fixed''),
     initialize = (\<lambda>callbacks s. (r, s)),
     enumerate_endpoints = (\<lambda>out_endpoints s. (r, eps, s)),
     open_device = (\<lambda>hw device_instance_id root s. (r, s)),
     close_device = (\<lambda>device_instance_id s. (r, s)),
     create_stream = (\<lambda>req s. (r, s)),
     destroy_stream = (\<lambda>stream_id s. (r, s)),
     start_stream = (\<lambda>stream_id s. (r, s)),
     stop_stream = (\<lambda>stream_id s. (r, s)),
     trigger_capture = (\<lambda>req s. (r, s)),
     abort_capture = (\<lambda>capture_id s. (r, s)),
     apply_camera_spec_patch = (\<lambda>hw new_camera_spec_version patch s. (r, s)),
     apply_imaging_spec_patch = (\<lambda>new_imaging_spec_version patch s. (r, s)),
     shutdown = (\<lambda>s. (r, s))\<rparr>"

section \<open>Values of the enumerators\<close>

lemma ProviderError_values:
  "OK = 0" "ERR_NOT_SUPPORTED = 1" "ERR_INVALID_ARGUMENT = 2" "ERR_BUSY = 3"
  "ERR_BAD_STATE = 4" "ERR_PLATFORM_CONSTRAINT = 5" "ERR_TRANSIENT_FAILURE = 6"
  "ERR_PROVIDER_FAILED = 7" "ERR_SHUTTING_DOWN = 8"
  by (simp_all add: OK_def ERR_NOT_SUPPORTED_def ERR_INVALID_ARGUMENT_def ERR_BUSY_def
      ERR_BAD_STATE_def ERR_PLATFORM_CONSTRAINT_def ERR_TRANSIENT_FAILURE_def
      ERR_PROVIDER_FAILED_def ERR_SHUTTING_DOWN_def)

lemma named_codes_eq: "named_codes = {0, 1, 2, 3, 4, 5, 6, 7, 8}"
  by (simp add: named_codes_def ProviderError_enumerators_def ProviderError_values)

lemma to_string_named:
  "to_string 0 = Some ''OK''" "to_string 1 = Some ''ERR_NOT_SUPPORTED''"
  "to_string 2 = Some ''ERR_INVALID_ARGUMENT''" "to_string 3 = Some ''ERR_BUSY''"
  "to_string 4 = Some ''ERR_BAD_STATE''" "to_string 5 = Some ''ERR_PLATFORM_CONSTRAINT''"
  "to_string 6 = Some ''ERR_TRANSIENT_FAILURE''" "to_string 7 = Some ''ERR_PROVIDER_FAILED''"
  "to_string 8 = Some ''ERR_SHUTTING_DOWN''"
  by (simp_all add: to_string_def ProviderError_values)

section \<open>The error codes\<close>

text \<open>
  C1, as the code has it. The declaration of \<^verbatim>\<open>ProviderError\<close> names exactly the nine
  codes \<^verbatim>\<open>OK\<close>, \<^verbatim>\<open>ERR_NOT_SUPPORTED\<close>, \<^verbatim>\<open>ERR_INVALID_ARGUMENT\<close>, \<^verbatim>\<open>ERR_BUSY\<close>,
  \<^verbatim>\<open>ERR_BAD_STATE\<close>, \<^verbatim>\<open>ERR_PLATFORM_CONSTRAINT\<close>, \<^verbatim>\<open>ERR_TRANSIENT_FAILURE\<close>,
  \<^verbatim>\<open>ERR_PROVIDER_FAILED\<close> and \<^verbatim>\<open>ERR_SHUTTING_DOWN\<close>, with the values 0 to 8, none
  missing and none added; \<^verbatim>\<open>success()\<close> carries one of them, and \<^verbatim>\<open>failure(c)\<close>
  carries one of them whenever \<open>c\<close> is one of them.
\<close>

theorem ProviderError_nine_codes:
  "map fst ProviderError_enumerators =
     [''OK'', ''ERR_NOT_SUPPORTED'', ''ERR_INVALID_ARGUMENT'', ''ERR_BUSY'', ''ERR_BAD_STATE'',
      ''ERR_PLATFORM_CONSTRAINT'', ''ERR_TRANSIENT_FAILURE'', ''ERR_PROVIDER_FAILED'',
      ''ERR_SHUTTING_DOWN''] \<and>
   map snd ProviderError_enumerators = [0, 1, 2, 3, 4, 5, 6, 7, 8] \<and>
   code success \<in> named_codes \<and>
   (c \<in> named_codes \<longrightarrow> code (failure c) \<in> named_codes)"
  by (simp add: ProviderError_enumerators_def ProviderError_values named_codes_eq
      success_def failure_def)

text \<open>The theorem at \<^verbatim>\<open>ERR_BUSY\<close>.\<close>

theorem ProviderError_nine_codes_witness:
  "ERR_BUSY \<in> named_codes \<and> code (failure ERR_BUSY) \<in> named_codes \<and>
   length ProviderError_enumerators = 9"
proof -
  have h: "ERR_BUSY \<in> named_codes"
    by (simp add: named_codes_eq ProviderError_values)
  note t = ProviderError_nine_codes [of ERR_BUSY]
  from t h have "code (failure ERR_BUSY) \<in> named_codes"
    by blast
  moreover from t have "length (map fst ProviderError_enumerators) = 9"
    by simp
  ultimately show ?thesis
    using h by simp
qed

text \<open>
  The last part of C1 as stated, that every \<^verbatim>\<open>ProviderResult\<close> a provider method
  returns carries one of the nine codes, fails: the enumeration's underlying type is
  \<^verbatim>\<open>uint32_t\<close>, and a provider whose \<^verbatim>\<open>shutdown\<close> returns
  \<^verbatim>\<open>failure(static_cast<ProviderError>(9))\<close> returns a code that has no enumerator.
\<close>

theorem provider_code_outside_nine_counterexample:
  "code (fst (shutdown (fixed_provider (failure 9) []) ())) \<notin> named_codes"
  by (simp add: fixed_provider_def failure_def named_codes_eq)

text \<open>
  C2, as the code has it. Of the three reasons of profile validation,
  \<^verbatim>\<open>ERR_INVALID_ARGUMENT\<close> and \<^verbatim>\<open>ERR_NOT_SUPPORTED\<close> are enumerators of
  \<^verbatim>\<open>ProviderError\<close>; \<^verbatim>\<open>ERR_PROFILE_INCOMPATIBLE\<close> is not an enumerator of it, and no
  value of the type is given that name by \<^verbatim>\<open>to_string\<close>.
\<close>

theorem validation_reasons_representable:
  "map_of ProviderError_enumerators ''ERR_INVALID_ARGUMENT'' = Some ERR_INVALID_ARGUMENT \<and>
   map_of ProviderError_enumerators ''ERR_NOT_SUPPORTED'' = Some ERR_NOT_SUPPORTED \<and>
   ''ERR_PROFILE_INCOMPATIBLE'' \<notin> fst ` set ProviderError_enumerators \<and>
   to_string e \<noteq> Some ''ERR_PROFILE_INCOMPATIBLE''"
  by (simp add: ProviderError_enumerators_def to_string_def)

text \<open>
  C2 as stated fails: looking the identifier \<^verbatim>\<open>ERR_PROFILE_INCOMPATIBLE\<close> up among the
  enumerators of \<^verbatim>\<open>ProviderError\<close> finds nothing.
\<close>

theorem ERR_PROFILE_INCOMPATIBLE_counterexample:
  "map_of ProviderError_enumerators ''ERR_PROFILE_INCOMPATIBLE'' = None"
  by (simp add: ProviderError_enumerators_def)

section \<open>to\_string\<close>

lemma to_string_unnamed:
  "e \<notin> named_codes \<Longrightarrow> to_string e = Some ''UNKNOWN_PROVIDER_ERROR''"
  by (simp add: to_string_def ProviderError_values named_codes_eq)

lemma to_string_not_null: "to_string e \<noteq> None"
  by (simp add: to_string_def)

lemma to_string_enumerators:
  "(n, v) \<in> set ProviderError_enumerators \<Longrightarrow> to_string v = Some n"
  by (auto simp add: ProviderError_enumerators_def ProviderError_values to_string_named)

lemma to_string_inj: "inj_on to_string named_codes"
  unfolding named_codes_eq inj_on_def by (simp add: to_string_named)

text \<open>
  C8. \<^verbatim>\<open>to_string\<close> is a total function of the code: for every value it returns a
  string, never the null pointer; for each of the nine enumerators it returns that
  enumerator's identifier, so distinct named codes have distinct strings; and for
  every value without an enumerator it returns \<^verbatim>\<open>"UNKNOWN_PROVIDER_ERROR"\<close>.
\<close>

theorem to_string_total:
  "to_string e \<noteq> None \<and>
   (\<forall>(n, v) \<in> set ProviderError_enumerators. to_string v = Some n) \<and>
   inj_on to_string named_codes \<and>
   (e \<notin> named_codes \<longrightarrow> to_string e = Some ''UNKNOWN_PROVIDER_ERROR'')"
  using to_string_not_null to_string_enumerators to_string_inj to_string_unnamed
  by blast

text \<open>The theorem at \<^verbatim>\<open>ERR_BUSY\<close>, at \<^verbatim>\<open>OK\<close> and at the value 9, which has no enumerator.\<close>

theorem to_string_total_witness:
  "(''ERR_BUSY'', ERR_BUSY) \<in> set ProviderError_enumerators \<and>
   to_string ERR_BUSY = Some ''ERR_BUSY'' \<and>
   ERR_BUSY \<in> named_codes \<and> OK \<in> named_codes \<and> to_string ERR_BUSY \<noteq> to_string OK \<and>
   (9 :: ProviderError) \<notin> named_codes \<and>
   to_string 9 = Some ''UNKNOWN_PROVIDER_ERROR''"
proof -
  have m: "(''ERR_BUSY'', ERR_BUSY) \<in> set ProviderError_enumerators"
    by (simp add: ProviderError_enumerators_def)
  have n: "ERR_BUSY \<in> named_codes" "OK \<in> named_codes" "ERR_BUSY \<noteq> OK"
    by (simp_all add: named_codes_eq ProviderError_values)
  have u: "(9 :: ProviderError) \<notin> named_codes"
    by (simp add: named_codes_eq)
  note t = to_string_total [of 9]
  from t m have "to_string ERR_BUSY = Some ''ERR_BUSY''"
    by blast
  moreover from t n have "to_string ERR_BUSY \<noteq> to_string OK"
    by (auto simp add: inj_on_def)
  moreover from t u have "to_string 9 = Some ''UNKNOWN_PROVIDER_ERROR''"
    by blast
  ultimately show ?thesis
    using m n u by blast
qed

section \<open>ProviderResult helpers\<close>

text \<open>
  C9. The helpers of \<^verbatim>\<open>ProviderResult\<close> agree with each other: for every
  \<^verbatim>\<open>ProviderError\<close> \<open>c\<close>, \<^verbatim>\<open>failure(c).code\<close> is \<open>c\<close>; \<^verbatim>\<open>success().code\<close> is
  \<^verbatim>\<open>OK\<close>; \<^verbatim>\<open>ok()\<close> is true exactly when the code is \<^verbatim>\<open>OK\<close>; so
  \<^verbatim>\<open>success().ok()\<close> is true and \<^verbatim>\<open>failure(c).ok()\<close> is true exactly when \<open>c\<close> is
  \<^verbatim>\<open>OK\<close>.
\<close>

theorem ProviderResult_algebra:
  "code (failure c) = c \<and>
   code success = OK \<and>
   ok r = (code r = OK) \<and>
   ok success \<and>
   ok (failure c) = (c = OK)"
  by (simp add: failure_def success_def ok_def)

section \<open>FrameView\<close>

text \<open>
  C6. A default-constructed \<^verbatim>\<open>FrameView\<close> has \<^verbatim>\<open>device_instance_id\<close>,
  \<^verbatim>\<open>stream_id\<close> (0: a capture-only frame), \<^verbatim>\<open>capture_id\<close> (0: a stream frame),
  \<^verbatim>\<open>width\<close>, \<^verbatim>\<open>height\<close>, \<^verbatim>\<open>format_fourcc\<close>, \<^verbatim>\<open>timestamp_ns\<close> (0: unknown),
  \<^verbatim>\<open>size_bytes\<close> and \<^verbatim>\<open>stride_bytes\<close> (0: packed or unknown) all 0, and \<^verbatim>\<open>data\<close>,
  \<^verbatim>\<open>release\<close> and \<^verbatim>\<open>release_user\<close> null.
\<close>

theorem FrameView_default_sentinels:
  "device_instance_id FrameView_default = 0 \<and>
   stream_id FrameView_default = 0 \<and>
   capture_id FrameView_default = 0 \<and>
   width FrameView_default = 0 \<and>
   height FrameView_default = 0 \<and>
   format_fourcc FrameView_default = 0 \<and>
   timestamp_ns FrameView_default = 0 \<and>
   size_bytes FrameView_default = 0 \<and>
   stride_bytes FrameView_default = 0 \<and>
   data FrameView_default = nullptr \<and>
   release FrameView_default = nullptr \<and>
   release_user FrameView_default = nullptr"
  by (simp add: FrameView_default_def)

text \<open>
  C5. For every \<^verbatim>\<open>FrameView\<close> whose \<^verbatim>\<open>release\<close> is not null, \<^verbatim>\<open>release_now\<close> is
  exactly one call through a function pointer: the call of the function \<^verbatim>\<open>release\<close>
  with the stored \<^verbatim>\<open>release_user\<close> and the address of this \<^verbatim>\<open>FrameView\<close>, entered
  once in the log; \<^verbatim>\<open>release_now\<close> does nothing before it and nothing after it, so
  its outcome is that one call's outcome, whatever the release function does.
\<close>

theorem release_now_invokes_once:
  assumes "frames m this = Some fv" and "release fv \<noteq> nullptr"
  shows "release_now fns this m =
           fns (release fv) (release_user fv) this
             (m\<lparr>invoked := invoked m @ [Call (release fv) (release_user fv) this]\<rparr>)"
  using assms by (simp add: release_now_def)

text \<open>
  The theorem at a frame at address 4096 whose release function is at 16384 and whose
  user pointer is the frame's own address; the release function counts its calls and
  sets the frame's \<^verbatim>\<open>release\<close> to null through the user pointer.
\<close>

theorem release_now_invokes_once_witness:
  "release_now clearing_release 4096
      \<lparr>frames = [4096 \<mapsto> FrameView_default\<lparr>release := 16384, release_user := 4096\<rparr>],
       world = 0, invoked = []\<rparr>
   = Some \<lparr>frames = [4096 \<mapsto> FrameView_default\<lparr>release_user := 4096, release := nullptr\<rparr>],
           world = 1, invoked = [Call 16384 4096 4096]\<rparr>"
proof -
  let ?fv = "FrameView_default\<lparr>release := 16384, release_user := 4096\<rparr>"
  let ?m = "\<lparr>frames = [4096 \<mapsto> ?fv], world = (0 :: nat), invoked = []\<rparr>"
  have a: "frames ?m 4096 = Some ?fv"
    by simp
  have b: "release ?fv \<noteq> nullptr"
    by (simp add: nullptr_def)
  have "release_now clearing_release 4096 ?m =
      clearing_release (release ?fv) (release_user ?fv) 4096
        (?m\<lparr>invoked := invoked ?m @ [Call (release ?fv) (release_user ?fv) 4096]\<rparr>)"
    by (rule release_now_invokes_once [OF a b])
  then show ?thesis
    by (simp add: clearing_release_def FrameView_default_def)
qed

text \<open>
  C10. For every \<^verbatim>\<open>FrameView\<close> whose \<^verbatim>\<open>release\<close> is null, \<^verbatim>\<open>release_now\<close> returns
  and leaves the whole state as it was: no call is added to the log, and neither the
  \<^verbatim>\<open>FrameView\<close> objects nor the rest of the state change.
\<close>

theorem release_now_null_hook:
  assumes "frames m this = Some fv" and "release fv = nullptr"
  shows "release_now fns this m = Some m"
  using assms by (simp add: release_now_def)

text \<open>
  The theorem at a default-constructed frame at address 4096, with a release function
  that would count the call.
\<close>

theorem release_now_null_hook_witness:
  "release_now counting_release 4096
      \<lparr>frames = [4096 \<mapsto> FrameView_default], world = 0, invoked = []\<rparr>
   = Some \<lparr>frames = [4096 \<mapsto> FrameView_default], world = 0, invoked = []\<rparr>"
proof -
  let ?m = "\<lparr>frames = [4096 \<mapsto> FrameView_default], world = (0 :: nat), invoked = []\<rparr>"
  have a: "frames ?m 4096 = Some FrameView_default"
    by simp
  have b: "release FrameView_default = nullptr"
    by (simp add: FrameView_default_def)
  from release_now_null_hook [OF a b] show ?thesis .
qed

section \<open>The provider interface\<close>




section \<open>The callback sink\<close>




end
